theory Spec2Isabelle
  imports Main "HOL-Library.Word"
begin

section \<open>Data model of the packet-interception firewall core\<close>

text \<open>
  The embedded source is package \<open>firewall\<close> (file \<open>src/unnamed/part_000\<close>):
  \<open>SetNameserverIPMatcher\<close>, \<open>handlePacket\<close>, \<open>getConnection\<close>,
  \<open>fastTrackedPermit\<close>, \<open>initialHandler\<close>, \<open>defaultHandler\<close>,
  \<open>inspectThenVerdict\<close> and \<open>issueVerdict\<close>.  Logging, tracing and the latency
  histogram have no effect on the state modelled here and are left out.
\<close>

subsection \<open>Verdicts\<close>

text \<open>
  \<open>network.Verdict\<close> is an integer type: the source compares verdicts with \<open><\<close> and
  \<open>>\<close> and passes the literal \<open>0\<close> as a proposed verdict.  The declaration of the
  type and the numeric values of its named constants are in package \<open>network\<close>, which is
  not part of the sources at hand, so the values are a parameter of the model.
\<close>

type_synonym Verdict = int

record VerdictConsts =
  VerdictUndecided :: Verdict
  VerdictAccept :: Verdict
  VerdictBlock :: Verdict
  VerdictDrop :: Verdict
  VerdictRerouteToNameserver :: Verdict
  VerdictRerouteToTunnel :: Verdict
  VerdictFailed :: Verdict

text \<open>
  What the source itself tells about the values: the six constants that label the cases
  of the \<open>switch\<close> in \<open>issueVerdict\<close> are pairwise distinct (the Go compiler rejects a
  \<open>switch\<close> with duplicate constant cases); the undecided verdict is the zero value
  (the literal \<open>0\<close> the handlers pass as "no proposal"), and every other named verdict
  is above it (\<open>inspectThenVerdict\<close> tests \<open>verdict > network.VerdictUndecided\<close> to
  see whether a verdict was returned).
\<close>

definition verdict_consts_ok :: "VerdictConsts \<Rightarrow> bool" where
  "verdict_consts_ok vc =
     (VerdictUndecided vc = 0 \<and>
      0 < VerdictAccept vc \<and> 0 < VerdictBlock vc \<and> 0 < VerdictDrop vc \<and>
      0 < VerdictRerouteToNameserver vc \<and> 0 < VerdictRerouteToTunnel vc \<and>
      0 < VerdictFailed vc \<and>
      distinct [VerdictAccept vc, VerdictBlock vc, VerdictDrop vc,
                VerdictRerouteToNameserver vc, VerdictRerouteToTunnel vc, VerdictFailed vc])"

subsection \<open>Packets\<close>

text \<open>
  \<open>net.IP\<close> is a byte slice of length 4 or 16 (or empty).  \<open>IP_Equal\<close> is
  \<open>net.IP.Equal\<close> of the Go standard library: an IPv4 address equals its
  IPv4-in-IPv6 form.
\<close>

type_synonym IP = "8 word list"

definition v4InV6Prefix :: IP where
  "v4InV6Prefix = [0, 0, 0, 0, 0, 0, 0, 0, 0, 0, 255, 255]"

definition IP_Equal :: "IP \<Rightarrow> IP \<Rightarrow> bool" where
  "IP_Equal ip x =
     (if length ip = length x then ip = x
      else if length ip = 4 \<and> length x = 16 then take 12 x = v4InV6Prefix \<and> ip = drop 12 x
      else if length ip = 16 \<and> length x = 4 then take 12 ip = v4InV6Prefix \<and> drop 12 ip = x
      else False)"

text \<open>\<open>blockedIPv4 = net.IPv4(0, 0, 0, 17)\<close> and \<open>blockedIPv6 = net.ParseIP("::17")\<close>.\<close>

definition blockedIPv4 :: IP where
  "blockedIPv4 = v4InV6Prefix @ [0, 0, 0, 17]"

definition blockedIPv6 :: IP where
  "blockedIPv6 = [0, 0, 0, 0, 0, 0, 0, 0, 0, 0, 0, 0, 0, 0, 0, 23]"

datatype IPProtocol = ICMP | ICMPv6 | UDP | TCP | OtherProtocol

text \<open>
  The layer \<open>pkt.Layers().LayerClass(layers.LayerClassIPControl)\<close> yields once the
  packet data is loaded: an ICMPv4 layer or an ICMPv6 layer with its type byte, or none.
\<close>

datatype ControlLayer = LayerICMPv4 "8 word" | LayerICMPv6 "8 word" | NoControlLayer

text \<open>The type bytes of gopacket's \<open>layers\<close> package.\<close>

definition ICMPv4TypeEchoRequest :: "8 word" where "ICMPv4TypeEchoRequest = 8"
definition ICMPv4TypeEchoReply :: "8 word" where "ICMPv4TypeEchoReply = 0"
definition ICMPv6TypeEchoRequest :: "8 word" where "ICMPv6TypeEchoRequest = 128"
definition ICMPv6TypeEchoReply :: "8 word" where "ICMPv6TypeEchoReply = 129"

text \<open>The verdict sinks of \<open>packet.Packet\<close>.\<close>

datatype Sink =
  Accept | Block | Drop | PermanentAccept | PermanentBlock | PermanentDrop
  | RerouteToNameserver | RerouteToTunnel

text \<open>
  A packet as the firewall sees it through the \<open>packet.Packet\<close> interface: the fields of
  \<open>pkt.Info()\<close>, the results of its query methods, and \<open>sinks\<close>, the verdict sinks that
  have been called on it so far, in call order.  The error a sink returns is only logged
  by the callers, so it is not part of the model.
\<close>

record Packet =
  Src :: IP
  Dst :: IP
  SrcPort :: "16 word"
  DstPort :: "16 word"
  Protocol :: IPProtocol
  FastTrackedByIntegration :: bool
  IsOutbound :: bool
  ConnectionID :: string
  LoadPacketDataFails :: bool
  IPControlLayer :: ControlLayer
  sinks :: "Sink list"

definition callSink :: "Sink \<Rightarrow> Packet \<Rightarrow> Packet" where
  "callSink s pkt = pkt\<lparr>sinks := sinks pkt @ [s]\<rparr>"

subsection \<open>Connection records\<close>

datatype Handler = InitialHandler | InspectThenVerdictHandler

text \<open>
  The fields of \<open>network.Connection\<close> the firewall reads or writes.
  \<open>firewallHandler = None\<close> is the nil handler.
\<close>

record Connection =
  ID :: string
  Inbound :: bool
  LocalPort :: "16 word"
  EntityProtocol :: "8 word"
  EntityIPScopeIsGlobal :: bool
  ProcessPid :: int
  Verdict :: Verdict
  ReasonMsg :: string
  Internal :: bool
  Inspecting :: bool
  VerdictPermanent :: bool
  firewallHandler :: "Handler option"
  saveWhenFinished :: bool

text \<open>
  Modelled from the spec: the methods of \<open>network.Connection\<close> (package \<open>network\<close> is
  not among the sources).  \<open>SaveWhenFinished\<close> sets the save-pending flag,
  \<open>StopFirewallHandler\<close> clears the handler, \<open>SetFirewallHandler\<close> replaces it.
\<close>

definition SaveWhenFinished :: "Connection \<Rightarrow> Connection" where
  "SaveWhenFinished conn = conn\<lparr>saveWhenFinished := True\<rparr>"

definition StopFirewallHandler :: "Connection \<Rightarrow> Connection" where
  "StopFirewallHandler conn = conn\<lparr>firewallHandler := None\<rparr>"

definition SetFirewallHandler :: "Handler \<Rightarrow> Connection \<Rightarrow> Connection" where
  "SetFirewallHandler h conn = conn\<lparr>firewallHandler := Some h\<rparr>"

text \<open>
  Modelled from the spec: \<open>conn.SetVerdict\<close> and \<open>conn.Accept\<close> of package
  \<open>network\<close>.  The spec's data model makes the record's verdict monotonic ("once set
  ... it never downgrades"), so \<open>SetVerdict\<close> stores the new verdict and its reason
  only when it is not below the current one; \<open>Accept\<close> is \<open>SetVerdict\<close> with the
  accept verdict.
\<close>

definition SetVerdict :: "Verdict \<Rightarrow> string \<Rightarrow> Connection \<Rightarrow> Connection" where
  "SetVerdict newVerdict reason conn =
     (if newVerdict \<ge> Verdict conn then conn\<lparr>Verdict := newVerdict, ReasonMsg := reason\<rparr>
      else conn)"

definition conn_Accept :: "VerdictConsts \<Rightarrow> string \<Rightarrow> Connection \<Rightarrow> Connection" where
  "conn_Accept vc reason conn = SetVerdict (VerdictAccept vc) reason conn"

subsection \<open>Process-wide state and collaborators\<close>

text \<open>
  The package variables: the nameserver IP matcher (\<open>None\<close> is the nil function) with
  its two flags, the four packet counters (\<open>uint64\<close>), and the connection table of
  package \<open>network\<close>.  \<open>handlerCalls\<close> is an observation added by the model: the number
  of firewall handlers that \<open>conn.HandlePacket\<close> has invoked.
\<close>

record FwState =
  nameserverIPMatcher :: "(IP \<Rightarrow> bool) option"
  nameserverIPMatcherSet :: bool
  nameserverIPMatcherReady :: bool
  packetsAccepted :: "64 word"
  packetsBlocked :: "64 word"
  packetsDropped :: "64 word"
  packetsFailed :: "64 word"
  conns :: "string \<rightharpoonup> Connection"
  handlerCalls :: nat

datatype IPScope =
  HostLocal | LinkLocal | SiteLocal | Global | LocalMulticast | GlobalMulticast | Invalid

text \<open>
  What the firewall consumes from outside the file: the verdict constants, the process
  id, configuration getters, and the collaborators (policy engine, tunnel, stream
  manager, ICMP listener, own-IP check, IP classifier, API endpoint, connection
  constructor).  A collaborator that may change the record returns the changed record.
  \<open>AwaitRequestFails\<close> and the last component of \<open>streamManagerHandlePacket\<close> tell
  whether the returned \<open>err\<close> is non-nil; \<open>IsMyIP\<close> returns \<open>(isMe, err \<noteq> nil)\<close>.
  The string \<open>streamManagerHandlePacket\<close> returns is \<open>reason.String()\<close>, taken after
  the handler has replaced a nil reason by the empty one.
\<close>

record Env =
  vc :: VerdictConsts
  ownPID :: int
  permanentVerdicts :: bool
  filterEnabled :: bool
  localPortIsPreAuthenticated :: "8 word \<Rightarrow> 16 word \<Rightarrow> bool"
  DecideOnConnection :: "Connection \<Rightarrow> Packet \<Rightarrow> Connection"
  ClientReady :: bool
  AwaitRequestFails :: "Packet \<Rightarrow> Connection \<Rightarrow> bool"
  InitializeInspectors :: "Connection \<Rightarrow> Packet \<Rightarrow> Connection"
  streamManagerHandlePacket :: "Connection \<Rightarrow> Packet \<Rightarrow> Connection \<times> Verdict \<times> string \<times> bool"
  SubmitPacketToICMPListener :: "Packet \<Rightarrow> bool"
  IsMyIP :: "IP \<Rightarrow> bool \<times> bool"
  ClassifyIP :: "IP \<Rightarrow> IPScope"
  apiPort :: "16 word"
  apiPortSet :: bool
  apiIP :: IP
  NewConnectionFromFirstPacket :: "Packet \<Rightarrow> Connection"

text \<open>Calling a nil function value panics.\<close>

datatype Panic = NilFunctionCall

section \<open>The firewall functions\<close>

subsection \<open>SetNameserverIPMatcher\<close>

text \<open>
  \<open>nameserverIPMatcherSet.SetToIf(false, true)\<close> sets the flag and returns true only
  when it was false.  \<open>Inl\<close> is the returned error, \<open>Inr ()\<close> is \<open>nil\<close>.
\<close>

definition SetNameserverIPMatcher ::
  "(IP \<Rightarrow> bool) option \<Rightarrow> FwState \<Rightarrow> (string + unit) \<times> FwState" where
  "SetNameserverIPMatcher fn st =
     (if nameserverIPMatcherSet st then (Inl ''nameserver IP matcher already set'', st)
      else (Inr (),
            st\<lparr>nameserverIPMatcherSet := True,
               nameserverIPMatcher := fn,
               nameserverIPMatcherReady := True\<rparr>))"

text \<open>A sequence of calls, in order, with the result of each.\<close>

fun SetNameserverIPMatcher_calls ::
  "(IP \<Rightarrow> bool) option list \<Rightarrow> FwState \<Rightarrow> (string + unit) list \<times> FwState" where
  "SetNameserverIPMatcher_calls [] st = ([], st)"
| "SetNameserverIPMatcher_calls (fn # fns) st =
     (case SetNameserverIPMatcher fn st of
        (r, st1) \<Rightarrow>
          (case SetNameserverIPMatcher_calls fns st1 of (rs, st2) \<Rightarrow> (r # rs, st2)))"

subsection \<open>issueVerdict\<close>

text \<open>Lines 440-446: enable the permanent verdict.\<close>

definition enablePermanentVerdict :: "Env \<Rightarrow> Connection \<Rightarrow> bool \<Rightarrow> Connection" where
  "enablePermanentVerdict env conn allowPermanent =
     (if allowPermanent \<and> \<not> VerdictPermanent conn then
        (let conn1 = conn\<lparr>VerdictPermanent := permanentVerdicts env\<rparr>
         in if VerdictPermanent conn1 then SaveWhenFinished conn1 else conn1)
      else conn)"

text \<open>Lines 448-451: the packet's verdict may not be below the connection's.\<close>

definition clampVerdict :: "Connection \<Rightarrow> Verdict \<Rightarrow> Verdict" where
  "clampVerdict conn verdict = (if verdict < Verdict conn then Verdict conn else verdict)"

text \<open>Lines 453-486: the switch over the verdict, counting and calling the sink.\<close>

definition applyVerdict ::
  "Env \<Rightarrow> FwState \<Rightarrow> Connection \<Rightarrow> Packet \<Rightarrow> Verdict \<Rightarrow> FwState \<times> Packet" where
  "applyVerdict env st conn pkt verdict =
     (if verdict = VerdictAccept (vc env) then
        (st\<lparr>packetsAccepted := packetsAccepted st + 1\<rparr>,
         if VerdictPermanent conn then callSink PermanentAccept pkt else callSink Accept pkt)
      else if verdict = VerdictBlock (vc env) then
        (st\<lparr>packetsBlocked := packetsBlocked st + 1\<rparr>,
         if VerdictPermanent conn then callSink PermanentBlock pkt else callSink Block pkt)
      else if verdict = VerdictDrop (vc env) then
        (st\<lparr>packetsDropped := packetsDropped st + 1\<rparr>,
         if VerdictPermanent conn then callSink PermanentDrop pkt else callSink Drop pkt)
      else if verdict = VerdictRerouteToNameserver (vc env) then
        (st, callSink RerouteToNameserver pkt)
      else if verdict = VerdictRerouteToTunnel (vc env) then
        (st, callSink RerouteToTunnel pkt)
      else if verdict = VerdictFailed (vc env) then
        (st\<lparr>packetsFailed := packetsFailed st + 1\<rparr>, callSink Drop pkt)
      else
        (st\<lparr>packetsDropped := packetsDropped st + 1\<rparr>, callSink Drop pkt))"

definition issueVerdict ::
  "Env \<Rightarrow> FwState \<Rightarrow> Connection \<Rightarrow> Packet \<Rightarrow> Verdict \<Rightarrow> bool
     \<Rightarrow> FwState \<times> Connection \<times> Packet" where
  "issueVerdict env st conn pkt verdict allowPermanent =
     (let conn1 = enablePermanentVerdict env conn allowPermanent;
          verdict1 = clampVerdict conn1 verdict
      in case applyVerdict env st conn1 pkt verdict1 of (st1, pkt1) \<Rightarrow> (st1, conn1, pkt1))"

text \<open>
  A sequence of \<open>issueVerdict\<close> calls on one record, each with its packet, proposed
  verdict and \<open>allowPermanent\<close>: \<open>issueVerdict_calls\<close> runs them in order and returns the
  final state and record and the packets as the calls left them;
  \<open>dispatchedVerdicts\<close> lists the verdict each call dispatched on (the value of
  \<open>verdict\<close> at the \<open>switch\<close>).
\<close>

fun issueVerdict_calls ::
  "Env \<Rightarrow> FwState \<Rightarrow> Connection \<Rightarrow> (Packet \<times> Verdict \<times> bool) list
     \<Rightarrow> FwState \<times> Connection \<times> Packet list" where
  "issueVerdict_calls env st conn [] = (st, conn, [])"
| "issueVerdict_calls env st conn ((pkt, verdict, allowPermanent) # calls) =
     (case issueVerdict env st conn pkt verdict allowPermanent of
        (st1, conn1, pkt1) \<Rightarrow>
          (case issueVerdict_calls env st1 conn1 calls of
             (st2, conn2, pkts) \<Rightarrow> (st2, conn2, pkt1 # pkts)))"

fun dispatchedVerdicts ::
  "Env \<Rightarrow> FwState \<Rightarrow> Connection \<Rightarrow> (Packet \<times> Verdict \<times> bool) list \<Rightarrow> Verdict list" where
  "dispatchedVerdicts env st conn [] = []"
| "dispatchedVerdicts env st conn ((pkt, verdict, allowPermanent) # calls) =
     clampVerdict (enablePermanentVerdict env conn allowPermanent) verdict #
     (case issueVerdict env st conn pkt verdict allowPermanent of
        (st1, conn1, pkt1) \<Rightarrow> dispatchedVerdicts env st1 conn1 calls)"



text \<open>
  The sum the stat logger's four counters add up to, and the sinks that install a
  permanent verdict in the driver.
\<close>

definition counterSum :: "FwState \<Rightarrow> 64 word" where
  "counterSum st = packetsAccepted st + packetsBlocked st + packetsDropped st + packetsFailed st"

fun permanentSink :: "Sink \<Rightarrow> bool" where
  "permanentSink PermanentAccept = True"
| "permanentSink PermanentBlock = True"
| "permanentSink PermanentDrop = True"
| "permanentSink s = False"

text \<open>The two verdicts whose \<open>case\<close> touches no counter.\<close>

definition rerouteVerdict :: "Env \<Rightarrow> Verdict \<Rightarrow> bool" where
  "rerouteVerdict env v =
     (v = VerdictRerouteToNameserver (vc env) \<or> v = VerdictRerouteToTunnel (vc env))"

subsection \<open>fastTrackedPermit\<close>

text \<open>
  The result is \<open>handled\<close> with the packet as the call left it.  In the DNS case the
  matcher is called once the ready flag is set; a nil matcher panics there.
\<close>

definition isEchoLayer :: "ControlLayer \<Rightarrow> bool" where
  "isEchoLayer l =
     (case l of
        LayerICMPv4 t \<Rightarrow> t = ICMPv4TypeEchoRequest \<or> t = ICMPv4TypeEchoReply
      | LayerICMPv6 t \<Rightarrow> t = ICMPv6TypeEchoRequest \<or> t = ICMPv6TypeEchoReply
      | NoControlLayer \<Rightarrow> False)"

definition fastTrackedPermit :: "Env \<Rightarrow> FwState \<Rightarrow> Packet \<Rightarrow> Panic + (bool \<times> Packet)" where
  "fastTrackedPermit env st pkt =
     (if FastTrackedByIntegration pkt then Inr (True, pkt)
      else if IP_Equal (Dst pkt) blockedIPv4 \<or> IP_Equal (Dst pkt) blockedIPv6 then
        Inr (True, callSink PermanentBlock pkt)
      else if SrcPort pkt = DstPort pkt \<and> IP_Equal (Src pkt) (Dst pkt) then
        Inr (True, callSink PermanentAccept pkt)
      else if Protocol pkt = ICMP \<or> Protocol pkt = ICMPv6 then
        (if LoadPacketDataFails pkt then Inr (True, callSink PermanentAccept pkt)
         else if isEchoLayer (IPControlLayer pkt) then Inr (False, pkt)
         else if SubmitPacketToICMPListener env pkt then Inr (True, callSink Accept pkt)
         else Inr (True, callSink PermanentAccept pkt))
      else if Protocol pkt = UDP \<or> Protocol pkt = TCP then
        (if DstPort pkt = 67 \<or> DstPort pkt = 68 \<or> DstPort pkt = 546 \<or> DstPort pkt = 547 then
           (if Protocol pkt \<noteq> UDP then Inr (False, pkt)
            else if \<not> (ClassifyIP env (Dst pkt) = HostLocal
                         \<or> ClassifyIP env (Dst pkt) = LinkLocal
                         \<or> ClassifyIP env (Dst pkt) = SiteLocal
                         \<or> ClassifyIP env (Dst pkt) = LocalMulticast) then
              Inr (False, pkt)
            else Inr (True, callSink PermanentAccept pkt))
         else if DstPort pkt = apiPort env then
           (if Protocol pkt \<noteq> TCP then Inr (False, pkt)
            else if \<not> apiPortSet env then Inr (False, pkt)
            else if \<not> IP_Equal (Dst pkt) (apiIP env) then Inr (False, pkt)
            else (case IsMyIP env (Src pkt) of
                    (isMe, err) \<Rightarrow>
                      if err then Inr (False, pkt)
                      else if \<not> isMe then Inr (False, pkt)
                      else Inr (True, callSink PermanentAccept pkt)))
         else if DstPort pkt = 53 then
           (if \<not> nameserverIPMatcherReady st then Inr (False, pkt)
            else (case nameserverIPMatcher st of
                    None \<Rightarrow> Inl NilFunctionCall
                  | Some matcher \<Rightarrow>
                      if \<not> matcher (Dst pkt) then Inr (False, pkt)
                      else (case IsMyIP env (Src pkt) of
                              (isMe, err) \<Rightarrow>
                                if err then Inr (False, pkt)
                                else if \<not> isMe then Inr (False, pkt)
                                else Inr (True, callSink PermanentAccept pkt))))
         else Inr (False, pkt))
      else Inr (False, pkt))"

subsection \<open>The connection handlers\<close>

definition defaultHandler ::
  "Env \<Rightarrow> FwState \<Rightarrow> Connection \<Rightarrow> Packet \<Rightarrow> FwState \<times> Connection \<times> Packet" where
  "defaultHandler env st conn pkt = issueVerdict env st conn pkt 0 True"

definition inspectThenVerdict ::
  "Env \<Rightarrow> FwState \<Rightarrow> Connection \<Rightarrow> Packet \<Rightarrow> FwState \<times> Connection \<times> Packet" where
  "inspectThenVerdict env st conn pkt =
     (case streamManagerHandlePacket env conn pkt of
        (conn1, verdict, reason, err) \<Rightarrow>
          (let verdict1 = (if err then VerdictAccept (vc env) else verdict);
               conn2 = (if verdict1 > VerdictUndecided (vc env)
                        then SetVerdict verdict1 reason conn1 else conn1);
               conn3 = (if \<not> Inspecting conn2
                        then SaveWhenFinished (StopFirewallHandler conn2) else conn2)
           in issueVerdict env st conn3 pkt 0 (\<not> Inspecting conn3)))"

text \<open>Lines 353-393 of \<open>initialHandler\<close>: everything after the rogue-DNS redirect.\<close>

definition initialHandler_decide ::
  "Env \<Rightarrow> FwState \<Rightarrow> Connection \<Rightarrow> Packet \<Rightarrow> FwState \<times> Connection \<times> Packet" where
  "initialHandler_decide env st conn pkt =
     (if \<not> filterEnabled env then
        (let conn1 = conn\<lparr>Inspecting := False\<rparr>;
             conn2 = conn_Accept (vc env) ''privacy filter disabled'' conn1;
             conn3 = StopFirewallHandler conn2
         in issueVerdict env st conn3 pkt 0 True)
      else
        (let conn1 = DecideOnConnection env conn pkt;
             conn2 = (if IsOutbound pkt \<and> ClientReady env \<and> EntityIPScopeIsGlobal conn1
                         \<and> Verdict conn1 = VerdictAccept (vc env)
                      then (if AwaitRequestFails env pkt conn1 then conn1
                            else conn1\<lparr>Verdict := VerdictRerouteToTunnel (vc env)\<rparr>)
                      else conn1)
         in if Inspecting conn2 then
              (let conn3 = InitializeInspectors env conn2 pkt;
                   conn4 = SetFirewallHandler InspectThenVerdictHandler conn3
               in inspectThenVerdict env st conn4 pkt)
            else issueVerdict env st (StopFirewallHandler conn2) pkt 0 True))"

text \<open>
  \<open>initialHandler\<close>.  The conditions of the rogue-DNS redirect are evaluated left to
  right, so the matcher is called only when all the others hold; a nil matcher panics
  there.
\<close>

definition initialHandler ::
  "Env \<Rightarrow> FwState \<Rightarrow> Connection \<Rightarrow> Packet \<Rightarrow> Panic + (FwState \<times> Connection \<times> Packet)" where
  "initialHandler env st conn pkt =
     (if \<not> Inbound conn \<and> localPortIsPreAuthenticated env (EntityProtocol conn) (LocalPort conn)
      then
        (let conn1 = conn_Accept (vc env) ''connection by Portmaster'' conn;
             conn2 = conn1\<lparr>Internal := True\<rparr>;
             conn3 = StopFirewallHandler conn2
         in Inr (issueVerdict env st conn3 pkt 0 True))
      else if IsOutbound pkt \<and> DstPort pkt = 53 \<and> ProcessPid conn \<noteq> ownPID env
              \<and> nameserverIPMatcherReady st then
        (case nameserverIPMatcher st of
           None \<Rightarrow> Inl NilFunctionCall
         | Some matcher \<Rightarrow>
             if \<not> matcher (Dst pkt) then
               (let conn1 = conn\<lparr>Verdict := VerdictRerouteToNameserver (vc env)\<rparr>;
                    conn2 = conn1\<lparr>ReasonMsg := ''redirecting rogue dns query''\<rparr>;
                    conn3 = conn2\<lparr>Internal := True\<rparr>;
                    conn4 = StopFirewallHandler conn3
                in Inr (issueVerdict env st conn4 pkt 0 True))
             else Inr (initialHandler_decide env st conn pkt))
      else Inr (initialHandler_decide env st conn pkt))"

subsection \<open>getConnection and handlePacket\<close>

text \<open>
  \<open>singleflight.Group.Do\<close> is a library call.  For one caller it either runs the given
  function itself (\<open>RunsCall\<close>; the flag tells whether duplicate callers joined, which
  is the \<open>shared\<close> result) or joins a call already in flight and receives that call's
  value and error (\<open>JoinsCall\<close>, with \<open>None\<close> the nil value and the flag telling whether
  the error is non-nil; \<open>shared\<close> is true).  Which of the two happens, and what a joined
  call delivers, is decided outside this caller and is an argument of the model.
\<close>

datatype Inflight = RunsCall bool | JoinsCall "Connection option" bool

text \<open>
  Modelled from the spec: the connection table of package \<open>network\<close>.
  \<open>GetConnection\<close> is the table's lookup.  The table holds the record a first packet
  creates under the packet's connection id and shares it by reference with the
  handlers; \<open>storeConnection\<close> writes the record's current value under the id.
\<close>

definition GetConnection :: "FwState \<Rightarrow> string \<Rightarrow> Connection option" where
  "GetConnection st cid = conns st cid"

definition storeConnection :: "string \<Rightarrow> Connection \<Rightarrow> FwState \<Rightarrow> FwState" where
  "storeConnection cid conn st = st\<lparr>conns := (conns st)(cid \<mapsto> conn)\<rparr>"

text \<open>
  \<open>getConnection\<close>: the function handed to \<open>Do\<close> returns the record found in the
  table or a new one with the initial handler set, and never an error; the result of
  \<open>Do\<close> is then checked for an error and for nil.  \<open>Inl\<close> is the returned error.
\<close>

definition getConnection ::
  "Env \<Rightarrow> FwState \<Rightarrow> Inflight \<Rightarrow> Packet \<Rightarrow> (string + Connection) \<times> FwState" where
  "getConnection env st inflight pkt =
     (case (case inflight of
              RunsCall dups \<Rightarrow>
                (case GetConnection st (ConnectionID pkt) of
                   Some conn \<Rightarrow> (Some conn, False, dups, False, st)
                 | None \<Rightarrow>
                     (let conn = NewConnectionFromFirstPacket env pkt;
                          conn1 = SetFirewallHandler InitialHandler conn
                      in (Some conn1, False, dups, True,
                          storeConnection (ConnectionID pkt) conn1 st)))
            | JoinsCall v err \<Rightarrow> (v, err, True, False, st)) of
        (newConn, err, shared, created, st1) \<Rightarrow>
          if err then (Inl ''failed to get connection'', st1)
          else (case newConn of
                  None \<Rightarrow> (Inl ''connection getter returned nil'', st1)
                | Some conn \<Rightarrow> (Inr conn, st1)))"

text \<open>
  Modelled from the spec: \<open>conn.HandlePacket\<close> of package \<open>network\<close> invokes the
  record's current firewall handler, or the default handler registered with
  \<open>network.SetDefaultFirewallHandler\<close> when the handler is nil; the table then holds
  the record as the handler left it.
\<close>

definition conn_HandlePacket ::
  "Env \<Rightarrow> FwState \<Rightarrow> Connection \<Rightarrow> Packet \<Rightarrow> Panic + (FwState \<times> Packet)" where
  "conn_HandlePacket env st conn pkt =
     (let st0 = st\<lparr>handlerCalls := handlerCalls st + 1\<rparr>
      in case (case firewallHandler conn of
                 None \<Rightarrow> Inr (defaultHandler env st0 conn pkt)
               | Some InitialHandler \<Rightarrow> initialHandler env st0 conn pkt
               | Some InspectThenVerdictHandler \<Rightarrow> Inr (inspectThenVerdict env st0 conn pkt)) of
           Inl p \<Rightarrow> Inl p
         | Inr (st1, conn1, pkt1) \<Rightarrow>
             Inr (storeConnection (ConnectionID pkt) conn1 st1, pkt1))"

definition handlePacket ::
  "Env \<Rightarrow> FwState \<Rightarrow> Inflight \<Rightarrow> Packet \<Rightarrow> Panic + (FwState \<times> Packet)" where
  "handlePacket env st inflight pkt =
     (case fastTrackedPermit env st pkt of
        Inl p \<Rightarrow> Inl p
      | Inr (handled, pkt1) \<Rightarrow>
          if handled then Inr (st, pkt1)
          else (case getConnection env st inflight pkt1 of
                  (Inl err, st1) \<Rightarrow> Inr (st1, callSink Drop pkt1)
                | (Inr conn, st1) \<Rightarrow> conn_HandlePacket env st1 conn pkt1))"

section \<open>Concrete inputs\<close>

text \<open>
  Verdict constants numbered in the spec's order, an environment whose collaborators
  do nothing (with either numbering of the constants), an empty state, a fresh record
  and an outbound DNS packet to 8.8.8.8.
\<close>

definition vc0 :: VerdictConsts where
  "vc0 = \<lparr>VerdictUndecided = 0, VerdictAccept = 1, VerdictBlock = 4, VerdictDrop = 5,
          VerdictRerouteToNameserver = 3, VerdictRerouteToTunnel = 2, VerdictFailed = 6\<rparr>"


definition conn0 :: Connection where
  "conn0 = \<lparr>ID = ''17-10.0.0.5-54321-8.8.8.8-53'', Inbound = False, LocalPort = 54321,
            EntityProtocol = 17, EntityIPScopeIsGlobal = True, ProcessPid = 4242,
            Verdict = 0, ReasonMsg = [], Internal = False, Inspecting = False,
            VerdictPermanent = False, firewallHandler = Some InitialHandler,
            saveWhenFinished = False\<rparr>"

definition env0 :: Env where
  "env0 = \<lparr>vc = vc0, ownPID = 1000, permanentVerdicts = True, filterEnabled = True,
           localPortIsPreAuthenticated = (\<lambda>proto port. False),
           DecideOnConnection = (\<lambda>conn pkt. conn),
           ClientReady = False,
           AwaitRequestFails = (\<lambda>pkt conn. True),
           InitializeInspectors = (\<lambda>conn pkt. conn),
           streamManagerHandlePacket = (\<lambda>conn pkt. (conn, 0, [], True)),
           SubmitPacketToICMPListener = (\<lambda>pkt. False),
           IsMyIP = (\<lambda>ip. (False, False)),
           ClassifyIP = (\<lambda>ip. Global),
           apiPort = 817, apiPortSet = False, apiIP = [127, 0, 0, 1],
           NewConnectionFromFirstPacket = (\<lambda>pkt. conn0)\<rparr>"


definition st0 :: FwState where
  "st0 = \<lparr>nameserverIPMatcher = None, nameserverIPMatcherSet = False,
          nameserverIPMatcherReady = False,
          packetsAccepted = 0, packetsBlocked = 0, packetsDropped = 0, packetsFailed = 0,
          conns = Map.empty, handlerCalls = 0\<rparr>"

definition pkt0 :: Packet where
  "pkt0 = \<lparr>Src = [10, 0, 0, 5], Dst = [8, 8, 8, 8], SrcPort = 54321, DstPort = 53,
           Protocol = UDP, FastTrackedByIntegration = False, IsOutbound = True,
           ConnectionID = ''17-10.0.0.5-54321-8.8.8.8-53'', LoadPacketDataFails = False,
           IPControlLayer = NoControlLayer, sinks = []\<rparr>"

section \<open>The verdict issuer\<close>

subsection \<open>Auxiliary facts\<close>

lemma verdict_consts_distinct:
  assumes "verdict_consts_ok consts"
  shows "VerdictAccept consts \<noteq> VerdictBlock consts"
    and "VerdictAccept consts \<noteq> VerdictDrop consts"
    and "VerdictAccept consts \<noteq> VerdictRerouteToNameserver consts"
    and "VerdictAccept consts \<noteq> VerdictRerouteToTunnel consts"
    and "VerdictAccept consts \<noteq> VerdictFailed consts"
    and "VerdictBlock consts \<noteq> VerdictDrop consts"
    and "VerdictBlock consts \<noteq> VerdictRerouteToNameserver consts"
    and "VerdictBlock consts \<noteq> VerdictRerouteToTunnel consts"
    and "VerdictBlock consts \<noteq> VerdictFailed consts"
    and "VerdictDrop consts \<noteq> VerdictRerouteToNameserver consts"
    and "VerdictDrop consts \<noteq> VerdictRerouteToTunnel consts"
    and "VerdictDrop consts \<noteq> VerdictFailed consts"
    and "VerdictRerouteToNameserver consts \<noteq> VerdictRerouteToTunnel consts"
    and "VerdictRerouteToNameserver consts \<noteq> VerdictFailed consts"
    and "VerdictRerouteToTunnel consts \<noteq> VerdictFailed consts"
  using assms by (simp_all add: verdict_consts_ok_def)

lemma verdict_consts_positive:
  assumes "verdict_consts_ok consts"
  shows "VerdictUndecided consts = 0"
    and "0 < VerdictAccept consts" and "0 < VerdictBlock consts" and "0 < VerdictDrop consts"
    and "0 < VerdictRerouteToNameserver consts" and "0 < VerdictRerouteToTunnel consts"
    and "0 < VerdictFailed consts"
  using assms by (simp_all add: verdict_consts_ok_def)

lemma clampVerdict_max: "clampVerdict conn v = max v (Verdict conn)"
  by (simp add: clampVerdict_def max_def)

lemma enablePermanentVerdict_Verdict:
  "Verdict (enablePermanentVerdict env conn ap) = Verdict conn"
  by (simp add: enablePermanentVerdict_def SaveWhenFinished_def Let_def)

lemma issueVerdict_conn:
  "fst (snd (issueVerdict env st conn pkt v ap)) = enablePermanentVerdict env conn ap"
  by (simp add: issueVerdict_def Let_def split: prod.splits)

lemma issueVerdict_Verdict:
  "Verdict (fst (snd (issueVerdict env st conn pkt v ap))) = Verdict conn"
  by (simp add: issueVerdict_conn enablePermanentVerdict_Verdict)

lemma applyVerdict_sinks:
  "\<exists>s. snd (applyVerdict env st conn pkt v) = callSink s pkt"
  unfolding applyVerdict_def by (simp only: snd_conv split: if_split) blast

lemma applyVerdict_reroute:
  assumes "verdict_consts_ok (vc env)"
    and "v = VerdictRerouteToNameserver (vc env) \<or> v = VerdictRerouteToTunnel (vc env)"
  shows "fst (applyVerdict env st conn pkt v) = st"
  using assms(2)
proof
  assume "v = VerdictRerouteToNameserver (vc env)"
  then show ?thesis
    using verdict_consts_distinct [OF assms(1)] verdict_consts_distinct [OF assms(1), symmetric]
    by (simp add: applyVerdict_def)
next
  assume "v = VerdictRerouteToTunnel (vc env)"
  then show ?thesis
    using verdict_consts_distinct [OF assms(1)] verdict_consts_distinct [OF assms(1), symmetric]
    by (simp add: applyVerdict_def)
qed

lemma applyVerdict_counted:
  assumes "v \<noteq> VerdictRerouteToNameserver (vc env)" and "v \<noteq> VerdictRerouteToTunnel (vc env)"
  shows "fst (applyVerdict env st conn pkt v) = st\<lparr>packetsAccepted := packetsAccepted st + 1\<rparr>
       \<or> fst (applyVerdict env st conn pkt v) = st\<lparr>packetsBlocked := packetsBlocked st + 1\<rparr>
       \<or> fst (applyVerdict env st conn pkt v) = st\<lparr>packetsDropped := packetsDropped st + 1\<rparr>
       \<or> fst (applyVerdict env st conn pkt v) = st\<lparr>packetsFailed := packetsFailed st + 1\<rparr>"
  using assms by (simp add: applyVerdict_def)

lemma applyVerdict_counterSum:
  assumes "verdict_consts_ok (vc env)"
  shows "counterSum (fst (applyVerdict env st conn pkt v)) =
           counterSum st + (if v = VerdictRerouteToNameserver (vc env)
                               \<or> v = VerdictRerouteToTunnel (vc env) then 0 else 1)"
  using verdict_consts_distinct [OF assms] verdict_consts_distinct [OF assms, symmetric]
  by (simp add: applyVerdict_def counterSum_def)

lemma issueVerdict_st:
  "fst (issueVerdict env st conn pkt v ap) =
     fst (applyVerdict env st (enablePermanentVerdict env conn ap) pkt (max v (Verdict conn)))"
  by (simp add: issueVerdict_def Let_def clampVerdict_max enablePermanentVerdict_Verdict
        split: prod.splits)

lemma issueVerdict_pkt:
  "snd (snd (issueVerdict env st conn pkt v ap)) =
     snd (applyVerdict env st (enablePermanentVerdict env conn ap) pkt (max v (Verdict conn)))"
  by (simp add: issueVerdict_def Let_def clampVerdict_max enablePermanentVerdict_Verdict
        split: prod.splits)

lemma issueVerdict_unfold:
  "issueVerdict env st conn pkt verdict allowPermanent =
     (fst (applyVerdict env st (enablePermanentVerdict env conn allowPermanent) pkt
             (max verdict (Verdict conn))),
      enablePermanentVerdict env conn allowPermanent,
      snd (applyVerdict env st (enablePermanentVerdict env conn allowPermanent) pkt
             (max verdict (Verdict conn))))"
  by (simp add: issueVerdict_def Let_def clampVerdict_max enablePermanentVerdict_Verdict
        split: prod.splits)

lemma applyVerdict_RerouteToNameserver:
  assumes "verdict_consts_ok (vc env)"
  shows "applyVerdict env st conn pkt (VerdictRerouteToNameserver (vc env))
           = (st, callSink RerouteToNameserver pkt)"
  using verdict_consts_distinct [OF assms] verdict_consts_distinct [OF assms, symmetric]
  by (simp add: applyVerdict_def)

lemma issueVerdict_calls_counterSum:
  assumes "verdict_consts_ok (vc env)"
  shows "counterSum (fst (issueVerdict_calls env st conn calls)) =
           counterSum st +
           of_nat (length (filter (\<lambda>v. \<not> rerouteVerdict env v) (dispatchedVerdicts env st conn calls)))"
proof (induction calls arbitrary: st conn)
  case Nil
  show ?case by simp
next
  case (Cons c calls)
  obtain pkt v ap where c: "c = (pkt, v, ap)" by (cases c) auto
  obtain st1 conn1 pkt1 where r: "issueVerdict env st conn pkt v ap = (st1, conn1, pkt1)"
    by (cases "issueVerdict env st conn pkt v ap") auto
  have st1: "st1 = fst (applyVerdict env st (enablePermanentVerdict env conn ap) pkt (max v (Verdict conn)))"
    using issueVerdict_st [of env st conn pkt v ap] r by simp
  have s1: "counterSum st1 = counterSum st + (if rerouteVerdict env (max v (Verdict conn)) then 0 else 1)"
    unfolding st1 rerouteVerdict_def by (rule applyVerdict_counterSum [OF assms])
  obtain st2 conn2 pkts where r2: "issueVerdict_calls env st1 conn1 calls = (st2, conn2, pkts)"
    by (cases "issueVerdict_calls env st1 conn1 calls") auto
  show ?case
    using Cons.IH [of st1 conn1] c r r2 s1
    by (simp add: clampVerdict_max enablePermanentVerdict_Verdict)
qed

lemma issueVerdict_calls_sinks:
  "sum_list (map (\<lambda>p. length (sinks p)) (snd (snd (issueVerdict_calls env st conn calls)))) =
     sum_list (map (\<lambda>c. length (sinks (fst c))) calls) + length calls"
proof (induction calls arbitrary: st conn)
  case Nil
  show ?case by simp
next
  case (Cons c calls)
  obtain pkt v ap where c: "c = (pkt, v, ap)" by (cases c) auto
  obtain st1 conn1 pkt1 where r: "issueVerdict env st conn pkt v ap = (st1, conn1, pkt1)"
    by (cases "issueVerdict env st conn pkt v ap") auto
  obtain s where "pkt1 = callSink s pkt"
    using issueVerdict_pkt [of env st conn pkt v ap] r
      applyVerdict_sinks [of env st "enablePermanentVerdict env conn ap" pkt "max v (Verdict conn)"]
    by auto
  then have "length (sinks pkt1) = length (sinks pkt) + 1" by (simp add: callSink_def)
  moreover obtain st2 conn2 pkts where "issueVerdict_calls env st1 conn1 calls = (st2, conn2, pkts)"
    by (cases "issueVerdict_calls env st1 conn1 calls") auto
  ultimately show ?case
    using Cons.IH [of st1 conn1] c r by simp
qed

subsection \<open>The dispatched verdict\<close>








subsection \<open>The packet counters\<close>

text \<open>
  Claim C2, as amended.  Every call of \<open>issueVerdict\<close> calls exactly one sink on its
  packet.  It increments exactly one of the four counters by one when the dispatched
  verdict is not a reroute verdict, and no counter when it is reroute-to-nameserver or
  reroute-to-tunnel.  So over a sequence of calls the sum
  accepted + blocked + dropped + failed (in \<open>uint64\<close> arithmetic) grows by the number of
  calls whose dispatched verdict is not a reroute verdict, while the number of sink
  calls grows by the number of all calls.
\<close>

theorem issueVerdict_counts_unless_reroute:
  assumes "verdict_consts_ok (vc env)"
  shows "(\<exists>s. snd (snd (issueVerdict env st conn pkt verdict allowPermanent)) = callSink s pkt)
       \<and> (rerouteVerdict env (max verdict (Verdict conn))
            \<longrightarrow> fst (issueVerdict env st conn pkt verdict allowPermanent) = st)
       \<and> (\<not> rerouteVerdict env (max verdict (Verdict conn))
            \<longrightarrow> fst (issueVerdict env st conn pkt verdict allowPermanent)
                   = st\<lparr>packetsAccepted := packetsAccepted st + 1\<rparr>
              \<or> fst (issueVerdict env st conn pkt verdict allowPermanent)
                   = st\<lparr>packetsBlocked := packetsBlocked st + 1\<rparr>
              \<or> fst (issueVerdict env st conn pkt verdict allowPermanent)
                   = st\<lparr>packetsDropped := packetsDropped st + 1\<rparr>
              \<or> fst (issueVerdict env st conn pkt verdict allowPermanent)
                   = st\<lparr>packetsFailed := packetsFailed st + 1\<rparr>)
       \<and> counterSum (fst (issueVerdict_calls env st conn calls))
            = counterSum st
              + of_nat (length (filter (\<lambda>v. \<not> rerouteVerdict env v)
                                 (dispatchedVerdicts env st conn calls)))
       \<and> sum_list (map (\<lambda>p. length (sinks p)) (snd (snd (issueVerdict_calls env st conn calls))))
            = sum_list (map (\<lambda>c. length (sinks (fst c))) calls) + length calls"
proof -
  let ?conn1 = "enablePermanentVerdict env conn allowPermanent"
  let ?e = "max verdict (Verdict conn)"
  have 1: "\<exists>s. snd (snd (issueVerdict env st conn pkt verdict allowPermanent)) = callSink s pkt"
    unfolding issueVerdict_pkt by (rule applyVerdict_sinks)
  have 2: "rerouteVerdict env ?e
             \<longrightarrow> fst (issueVerdict env st conn pkt verdict allowPermanent) = st"
    unfolding issueVerdict_st rerouteVerdict_def
    using applyVerdict_reroute [OF assms, of ?e st ?conn1 pkt] by blast
  have 3: "\<not> rerouteVerdict env ?e
            \<longrightarrow> fst (issueVerdict env st conn pkt verdict allowPermanent)
                   = st\<lparr>packetsAccepted := packetsAccepted st + 1\<rparr>
              \<or> fst (issueVerdict env st conn pkt verdict allowPermanent)
                   = st\<lparr>packetsBlocked := packetsBlocked st + 1\<rparr>
              \<or> fst (issueVerdict env st conn pkt verdict allowPermanent)
                   = st\<lparr>packetsDropped := packetsDropped st + 1\<rparr>
              \<or> fst (issueVerdict env st conn pkt verdict allowPermanent)
                   = st\<lparr>packetsFailed := packetsFailed st + 1\<rparr>"
    unfolding issueVerdict_st rerouteVerdict_def
    using applyVerdict_counted [of ?e env st ?conn1 pkt] by blast
  show ?thesis
    using 1 2 3 issueVerdict_calls_counterSum [OF assms, of st conn calls]
      issueVerdict_calls_sinks [of env st conn calls]
    by blast
qed

text \<open>
  The theorem at a failed record (the failed counter is incremented), at a record
  rerouted to the tunnel (no counter moves), and over three calls of which one is a
  reroute (the sum is two).
\<close>

theorem issueVerdict_counts_unless_reroute_witness:
  "verdict_consts_ok (vc env0)
   \<and> \<not> rerouteVerdict env0 (max 0 (Verdict (conn0\<lparr>Verdict := VerdictFailed vc0\<rparr>)))
   \<and> issueVerdict env0 st0 (conn0\<lparr>Verdict := VerdictFailed vc0\<rparr>) pkt0 0 False
       = (st0\<lparr>packetsFailed := 1\<rparr>, conn0\<lparr>Verdict := VerdictFailed vc0\<rparr>, callSink Drop pkt0)
   \<and> rerouteVerdict env0 (max 0 (Verdict (conn0\<lparr>Verdict := VerdictRerouteToTunnel vc0\<rparr>)))
   \<and> fst (issueVerdict env0 st0 (conn0\<lparr>Verdict := VerdictRerouteToTunnel vc0\<rparr>) pkt0 0 False) = st0
   \<and> dispatchedVerdicts env0 st0 (conn0\<lparr>Verdict := VerdictAccept vc0\<rparr>)
        [(pkt0, 0, False), (pkt0, VerdictRerouteToTunnel vc0, False), (pkt0, VerdictDrop vc0, False)]
       = [VerdictAccept vc0, VerdictRerouteToTunnel vc0, VerdictDrop vc0]
   \<and> counterSum (fst (issueVerdict_calls env0 st0 (conn0\<lparr>Verdict := VerdictAccept vc0\<rparr>)
        [(pkt0, 0, False), (pkt0, VerdictRerouteToTunnel vc0, False), (pkt0, VerdictDrop vc0, False)]))
       = 2"
  using issueVerdict_counts_unless_reroute [of env0 st0 "conn0\<lparr>Verdict := VerdictFailed vc0\<rparr>"
      pkt0 0 False
      "[(pkt0, 0, False), (pkt0, VerdictRerouteToTunnel vc0, False), (pkt0, VerdictDrop vc0, False)]"]
    issueVerdict_counts_unless_reroute [of env0 st0 "conn0\<lparr>Verdict := VerdictRerouteToTunnel vc0\<rparr>"
      pkt0 0 False "[]"]
  by (simp add: issueVerdict_def applyVerdict_def clampVerdict_def enablePermanentVerdict_def
        rerouteVerdict_def counterSum_def
        callSink_def env0_def vc0_def conn0_def pkt0_def st0_def verdict_consts_ok_def Let_def)

text \<open>
  The claim as stated fails at a reroute verdict: the call on a record at
  reroute-to-nameserver calls the reroute sink and leaves all four counters at zero.
\<close>

theorem issueVerdict_reroute_uncounted_counterexample:
  "sinks (snd (snd (issueVerdict env0 st0 (conn0\<lparr>Verdict := VerdictRerouteToNameserver vc0\<rparr>)
                     pkt0 0 True))) = [RerouteToNameserver]
   \<and> counterSum st0 = 0
   \<and> counterSum (fst (issueVerdict env0 st0 (conn0\<lparr>Verdict := VerdictRerouteToNameserver vc0\<rparr>)
                     pkt0 0 True)) = 0
   \<and> counterSum (fst (issueVerdict env0 st0 (conn0\<lparr>Verdict := VerdictRerouteToNameserver vc0\<rparr>)
                     pkt0 0 True))
       \<noteq> counterSum st0 + 1"
  by (simp add: issueVerdict_def applyVerdict_def clampVerdict_def enablePermanentVerdict_def
        counterSum_def SaveWhenFinished_def
        callSink_def env0_def vc0_def conn0_def pkt0_def st0_def Let_def)

subsection \<open>The sink\<close>

text \<open>
  Claim C6.  Every call of \<open>issueVerdict\<close> calls exactly one sink, the one that belongs to
  the dispatched verdict (the maximum of the proposed and the record's verdict): the
  accept, block or drop sink for accept, block or drop, the reroute sinks for the
  reroute verdicts, the drop sink for failed and anything else.  The sink is a
  permanent one exactly when the record's permanent flag is set and the dispatched
  verdict is accept, block or drop.  The flag is read after the first step of the call,
  which sets it when \<open>allowPermanent\<close> and the permanent-verdicts option are on.
\<close>

theorem issueVerdict_sink_matches_verdict:
  assumes "verdict_consts_ok (vc env)"
  shows "\<exists>s. snd (snd (issueVerdict env st conn pkt verdict allowPermanent)) = callSink s pkt
       \<and> (max verdict (Verdict conn) = VerdictAccept (vc env)
            \<longrightarrow> s = (if VerdictPermanent (fst (snd (issueVerdict env st conn pkt verdict allowPermanent)))
                       then PermanentAccept else Accept))
       \<and> (max verdict (Verdict conn) = VerdictBlock (vc env)
            \<longrightarrow> s = (if VerdictPermanent (fst (snd (issueVerdict env st conn pkt verdict allowPermanent)))
                       then PermanentBlock else Block))
       \<and> (max verdict (Verdict conn) = VerdictDrop (vc env)
            \<longrightarrow> s = (if VerdictPermanent (fst (snd (issueVerdict env st conn pkt verdict allowPermanent)))
                       then PermanentDrop else Drop))
       \<and> (max verdict (Verdict conn) = VerdictRerouteToNameserver (vc env)
            \<longrightarrow> s = RerouteToNameserver)
       \<and> (max verdict (Verdict conn) = VerdictRerouteToTunnel (vc env)
            \<longrightarrow> s = RerouteToTunnel)
       \<and> (max verdict (Verdict conn) \<notin>
              {VerdictAccept (vc env), VerdictBlock (vc env), VerdictDrop (vc env),
               VerdictRerouteToNameserver (vc env), VerdictRerouteToTunnel (vc env)}
            \<longrightarrow> s = Drop)
       \<and> (permanentSink s \<longleftrightarrow>
            VerdictPermanent (fst (snd (issueVerdict env st conn pkt verdict allowPermanent)))
            \<and> max verdict (Verdict conn) \<in>
                {VerdictAccept (vc env), VerdictBlock (vc env), VerdictDrop (vc env)})
       \<and> (VerdictPermanent (fst (snd (issueVerdict env st conn pkt verdict allowPermanent)))
            \<longleftrightarrow> VerdictPermanent conn \<or> allowPermanent \<and> permanentVerdicts env)"
proof -
  define conn1 where "conn1 = enablePermanentVerdict env conn allowPermanent"
  define e where "e = max verdict (Verdict conn)"
  have flag: "VerdictPermanent conn1
                \<longleftrightarrow> VerdictPermanent conn \<or> allowPermanent \<and> permanentVerdicts env"
    unfolding conn1_def by (auto simp: enablePermanentVerdict_def SaveWhenFinished_def Let_def)
  have sink: "\<exists>s. snd (applyVerdict env st conn1 pkt e) = callSink s pkt
       \<and> (e = VerdictAccept (vc env)
            \<longrightarrow> s = (if VerdictPermanent conn1 then PermanentAccept else Accept))
       \<and> (e = VerdictBlock (vc env)
            \<longrightarrow> s = (if VerdictPermanent conn1 then PermanentBlock else Block))
       \<and> (e = VerdictDrop (vc env)
            \<longrightarrow> s = (if VerdictPermanent conn1 then PermanentDrop else Drop))
       \<and> (e = VerdictRerouteToNameserver (vc env) \<longrightarrow> s = RerouteToNameserver)
       \<and> (e = VerdictRerouteToTunnel (vc env) \<longrightarrow> s = RerouteToTunnel)
       \<and> (e \<notin> {VerdictAccept (vc env), VerdictBlock (vc env), VerdictDrop (vc env),
               VerdictRerouteToNameserver (vc env), VerdictRerouteToTunnel (vc env)}
            \<longrightarrow> s = Drop)
       \<and> (permanentSink s \<longleftrightarrow>
            VerdictPermanent conn1
            \<and> e \<in> {VerdictAccept (vc env), VerdictBlock (vc env), VerdictDrop (vc env)})"
    using verdict_consts_distinct [OF assms] verdict_consts_distinct [OF assms, symmetric]
    by (simp add: applyVerdict_def)
  show ?thesis
    unfolding issueVerdict_pkt issueVerdict_conn
    using sink flag unfolding conn1_def e_def by blast
qed

text \<open>
  The theorem at a permanent record at drop (permanent drop) and at a permanent record
  rerouted to the tunnel (the one-shot reroute sink).
\<close>

theorem issueVerdict_sink_matches_verdict_witness:
  "verdict_consts_ok (vc env0)
   \<and> issueVerdict env0 st0 (conn0\<lparr>Verdict := VerdictDrop vc0\<rparr>) pkt0 0 True
       = (st0\<lparr>packetsDropped := 1\<rparr>,
          conn0\<lparr>Verdict := VerdictDrop vc0, VerdictPermanent := True, saveWhenFinished := True\<rparr>,
          callSink PermanentDrop pkt0)
   \<and> permanentSink PermanentDrop
   \<and> max 0 (Verdict (conn0\<lparr>Verdict := VerdictDrop vc0\<rparr>)) = VerdictDrop (vc env0)
   \<and> issueVerdict env0 st0 (conn0\<lparr>Verdict := VerdictRerouteToTunnel vc0\<rparr>) pkt0 0 True
       = (st0,
          conn0\<lparr>Verdict := VerdictRerouteToTunnel vc0, VerdictPermanent := True,
                saveWhenFinished := True\<rparr>,
          callSink RerouteToTunnel pkt0)
   \<and> \<not> permanentSink RerouteToTunnel"
  using issueVerdict_sink_matches_verdict [of env0 st0 "conn0\<lparr>Verdict := VerdictDrop vc0\<rparr>" pkt0 0 True]
    issueVerdict_sink_matches_verdict [of env0 st0 "conn0\<lparr>Verdict := VerdictRerouteToTunnel vc0\<rparr>"
      pkt0 0 True]
  by (simp add: issueVerdict_def applyVerdict_def clampVerdict_def enablePermanentVerdict_def
        SaveWhenFinished_def
        callSink_def env0_def vc0_def conn0_def pkt0_def st0_def verdict_consts_ok_def Let_def)

subsection \<open>The undecided verdict\<close>

text \<open>
  Claim C9.  When the proposed verdict and the record's verdict are both undecided,
  \<open>issueVerdict\<close> takes the default case of the switch: it increments the dropped
  counter and calls the packet's one-shot drop sink.
\<close>

theorem issueVerdict_undecided_drops:
  assumes "verdict_consts_ok (vc env)"
    and "verdict = VerdictUndecided (vc env)"
    and "Verdict conn = VerdictUndecided (vc env)"
  shows "issueVerdict env st conn pkt verdict allowPermanent =
           (st\<lparr>packetsDropped := packetsDropped st + 1\<rparr>,
            enablePermanentVerdict env conn allowPermanent,
            callSink Drop pkt)"
proof -
  have "max verdict (Verdict conn) = 0"
    using assms(2,3) verdict_consts_positive(1) [OF assms(1)] by simp
  then show ?thesis
    unfolding issueVerdict_unfold
    using verdict_consts_positive [OF assms(1)]
    by (simp add: applyVerdict_def)
qed

text \<open>The theorem at a fresh record.\<close>

theorem issueVerdict_undecided_drops_witness:
  "verdict_consts_ok (vc env0)
   \<and> VerdictUndecided (vc env0) = 0
   \<and> Verdict conn0 = VerdictUndecided (vc env0)
   \<and> issueVerdict env0 st0 conn0 pkt0 (VerdictUndecided (vc env0)) True =
        (st0\<lparr>packetsDropped := 1\<rparr>,
         conn0\<lparr>VerdictPermanent := True, saveWhenFinished := True\<rparr>,
         callSink Drop pkt0)
   \<and> sinks (callSink Drop pkt0) = [Drop]"
  using issueVerdict_undecided_drops [of env0 "VerdictUndecided (vc env0)" conn0 st0 pkt0 True]
  by (simp add: enablePermanentVerdict_def SaveWhenFinished_def
        callSink_def env0_def vc0_def conn0_def pkt0_def st0_def verdict_consts_ok_def Let_def)

section \<open>The inspection handler\<close>

lemma inspectThenVerdict_error_unfold:
  assumes "verdict_consts_ok (vc env)"
    and "streamManagerHandlePacket env conn pkt = (conn1, verdict, reason, True)"
  shows "inspectThenVerdict env st conn pkt =
           issueVerdict env st
             (if Inspecting conn1 then SetVerdict (VerdictAccept (vc env)) reason conn1
              else SaveWhenFinished (StopFirewallHandler
                     (SetVerdict (VerdictAccept (vc env)) reason conn1)))
             pkt 0 (\<not> Inspecting conn1)"
proof -
  have a: "VerdictAccept (vc env) > VerdictUndecided (vc env)"
    using assms(1) by (simp add: verdict_consts_ok_def)
  have i: "Inspecting (SetVerdict (VerdictAccept (vc env)) reason conn1) = Inspecting conn1"
    by (simp add: SetVerdict_def)
  have j: "Inspecting (SaveWhenFinished (StopFirewallHandler c)) = Inspecting c" for c
    by (simp add: SaveWhenFinished_def StopFirewallHandler_def)
  show ?thesis
    using a by (simp add: inspectThenVerdict_def assms(2) Let_def i j)
qed

lemma inspectThenVerdict_error_accept:
  assumes "verdict_consts_ok (vc env)"
    and "streamManagerHandlePacket env conn pkt = (conn1, verdict, reason, True)"
    and "Verdict conn1 = VerdictAccept (vc env)" and "Inspecting conn1"
    and "\<not> VerdictPermanent conn1"
  shows "inspectThenVerdict env st conn pkt =
           (st\<lparr>packetsAccepted := packetsAccepted st + 1\<rparr>,
            conn1\<lparr>ReasonMsg := reason\<rparr>, callSink Accept pkt)"
proof -
  have s: "SetVerdict (VerdictAccept (vc env)) reason conn1 = conn1\<lparr>ReasonMsg := reason\<rparr>"
    using assms(3) by (simp add: SetVerdict_def)
  have z: "\<not> (0 < VerdictAccept (vc env)) \<Longrightarrow> False"
    using assms(1) by (simp add: verdict_consts_ok_def)
  show ?thesis
    unfolding inspectThenVerdict_error_unfold [OF assms(1,2)] s
    using assms(3,4,5) z
    by (auto simp: issueVerdict_def Let_def enablePermanentVerdict_def clampVerdict_def
          applyVerdict_def)
qed

lemma inspectThenVerdict_error_above_accept:
  assumes "verdict_consts_ok (vc env)"
    and "streamManagerHandlePacket env conn pkt = (conn1, verdict, reason, True)"
    and "VerdictAccept (vc env) < Verdict conn1"
  shows "Verdict (fst (snd (inspectThenVerdict env st conn pkt))) = Verdict conn1"
    and "snd (snd (inspectThenVerdict env st conn pkt)) \<noteq> callSink Accept pkt"
    and "snd (snd (inspectThenVerdict env st conn pkt)) \<noteq> callSink PermanentAccept pkt"
proof -
  have s: "SetVerdict (VerdictAccept (vc env)) reason conn1 = conn1"
    using assms(3) by (simp add: SetVerdict_def)
  let ?c = "if Inspecting conn1 then conn1 else SaveWhenFinished (StopFirewallHandler conn1)"
  have u: "inspectThenVerdict env st conn pkt = issueVerdict env st ?c pkt 0 (\<not> Inspecting conn1)"
    unfolding inspectThenVerdict_error_unfold [OF assms(1,2)] s ..
  have v: "Verdict ?c = Verdict conn1"
    by (simp add: SaveWhenFinished_def StopFirewallHandler_def)
  show "Verdict (fst (snd (inspectThenVerdict env st conn pkt))) = Verdict conn1"
    unfolding u by (simp add: issueVerdict_Verdict v)
  have m: "max 0 (Verdict ?c) = Verdict conn1"
    unfolding v using assms(1,3) by (simp add: verdict_consts_ok_def)
  have p: "snd (snd (inspectThenVerdict env st conn pkt))
             = snd (applyVerdict env st (enablePermanentVerdict env ?c (\<not> Inspecting conn1)) pkt
                      (Verdict conn1))"
    unfolding u issueVerdict_pkt m ..
  have ne: "callSink s pkt \<noteq> callSink s' pkt" if "s \<noteq> s'" for s s'
  proof
    assume "callSink s pkt = callSink s' pkt"
    then have "sinks (callSink s pkt) = sinks (callSink s' pkt)" by simp
    then show False using that by (simp add: callSink_def)
  qed
  show "snd (snd (inspectThenVerdict env st conn pkt)) \<noteq> callSink Accept pkt"
    unfolding p using assms(3) by (simp add: applyVerdict_def ne)
  show "snd (snd (inspectThenVerdict env st conn pkt)) \<noteq> callSink PermanentAccept pkt"
    unfolding p using assms(3) by (simp add: applyVerdict_def ne)
qed

lemma applyVerdict_Accept:
  "applyVerdict env st conn pkt (VerdictAccept (vc env)) =
     (st\<lparr>packetsAccepted := packetsAccepted st + 1\<rparr>,
      callSink (if VerdictPermanent conn then PermanentAccept else Accept) pkt)"
  by (simp add: applyVerdict_def)

lemma inspectThenVerdict_error_at_most_accept:
  assumes "verdict_consts_ok (vc env)"
    and "streamManagerHandlePacket env conn pkt = (conn1, verdict, reason, True)"
    and "Verdict conn1 \<le> VerdictAccept (vc env)"
  shows "inspectThenVerdict env st conn pkt =
           (st\<lparr>packetsAccepted := packetsAccepted st + 1\<rparr>,
            enablePermanentVerdict env
              (if Inspecting conn1
               then conn1\<lparr>Verdict := VerdictAccept (vc env), ReasonMsg := reason\<rparr>
               else SaveWhenFinished (StopFirewallHandler
                      (conn1\<lparr>Verdict := VerdictAccept (vc env), ReasonMsg := reason\<rparr>)))
              (\<not> Inspecting conn1),
            callSink
              (if VerdictPermanent
                    (enablePermanentVerdict env
                       (if Inspecting conn1
                        then conn1\<lparr>Verdict := VerdictAccept (vc env), ReasonMsg := reason\<rparr>
                        else SaveWhenFinished (StopFirewallHandler
                               (conn1\<lparr>Verdict := VerdictAccept (vc env), ReasonMsg := reason\<rparr>)))
                       (\<not> Inspecting conn1))
               then PermanentAccept else Accept) pkt)"
proof -
  let ?c2 = "conn1\<lparr>Verdict := VerdictAccept (vc env), ReasonMsg := reason\<rparr>"
  let ?c3 = "if Inspecting conn1 then ?c2 else SaveWhenFinished (StopFirewallHandler ?c2)"
  have s: "SetVerdict (VerdictAccept (vc env)) reason conn1 = ?c2"
    using assms(3) by (simp add: SetVerdict_def)
  have u: "inspectThenVerdict env st conn pkt = issueVerdict env st ?c3 pkt 0 (\<not> Inspecting conn1)"
    unfolding inspectThenVerdict_error_unfold [OF assms(1,2)] s ..
  have v: "Verdict ?c3 = VerdictAccept (vc env)"
    by (simp add: SaveWhenFinished_def StopFirewallHandler_def)
  have m: "max 0 (Verdict ?c3) = VerdictAccept (vc env)"
    unfolding v using verdict_consts_positive(2) [OF assms(1)] by simp
  show ?thesis
    unfolding u issueVerdict_unfold m applyVerdict_Accept by simp
qed

lemma inspectThenVerdict_error_above_accept_exact:
  assumes "verdict_consts_ok (vc env)"
    and "streamManagerHandlePacket env conn pkt = (conn1, verdict, reason, True)"
    and "VerdictAccept (vc env) < Verdict conn1"
  shows "inspectThenVerdict env st conn pkt =
           (fst (applyVerdict env st
                   (enablePermanentVerdict env
                      (if Inspecting conn1 then conn1
                       else SaveWhenFinished (StopFirewallHandler conn1))
                      (\<not> Inspecting conn1))
                   pkt (Verdict conn1)),
            enablePermanentVerdict env
              (if Inspecting conn1 then conn1
               else SaveWhenFinished (StopFirewallHandler conn1))
              (\<not> Inspecting conn1),
            snd (applyVerdict env st
                   (enablePermanentVerdict env
                      (if Inspecting conn1 then conn1
                       else SaveWhenFinished (StopFirewallHandler conn1))
                      (\<not> Inspecting conn1))
                   pkt (Verdict conn1)))"
proof -
  have s: "SetVerdict (VerdictAccept (vc env)) reason conn1 = conn1"
    using assms(3) by (simp add: SetVerdict_def)
  let ?c = "if Inspecting conn1 then conn1 else SaveWhenFinished (StopFirewallHandler conn1)"
  have u: "inspectThenVerdict env st conn pkt = issueVerdict env st ?c pkt 0 (\<not> Inspecting conn1)"
    unfolding inspectThenVerdict_error_unfold [OF assms(1,2)] s ..
  have v: "Verdict ?c = Verdict conn1"
    by (simp add: SaveWhenFinished_def StopFirewallHandler_def)
  have m: "max 0 (Verdict ?c) = Verdict conn1"
    unfolding v using verdict_consts_positive(2) [OF assms(1)] assms(3) by simp
  show ?thesis
    unfolding u issueVerdict_unfold m ..
qed

text \<open>
  Claim C3, as amended.  When the stream manager returns an error, the handler proposes
  accept to the record through \<open>SetVerdict\<close> and then issues the record's verdict with
  \<open>allowPermanent\<close> the negation of the inspecting flag.  If the stream manager leaves
  the record at accept, still inspecting and not permanent, the packet goes to the
  one-shot accept sink, the accepted counter is incremented and the record keeps its
  verdict, its handler and its flags (only the reason text is replaced), so the next
  packet is inspected again.  In general a record at or below accept ends at accept
  and its packet is accepted, by the permanent sink when the record is permanent after
  the call; a record above accept keeps its verdict and its packet is dispatched on
  that verdict, exactly as \<open>issueVerdict\<close> dispatches it, and never to an accept sink.
\<close>

theorem inspectThenVerdict_on_error:
  assumes "verdict_consts_ok (vc env)"
    and "streamManagerHandlePacket env conn pkt = (conn1, verdict, reason, True)"
  shows "(Verdict conn1 = VerdictAccept (vc env) \<and> Inspecting conn1 \<and> \<not> VerdictPermanent conn1
            \<longrightarrow> inspectThenVerdict env st conn pkt =
                  (st\<lparr>packetsAccepted := packetsAccepted st + 1\<rparr>,
                   conn1\<lparr>ReasonMsg := reason\<rparr>, callSink Accept pkt))
       \<and> (Verdict conn1 \<le> VerdictAccept (vc env)
            \<longrightarrow> inspectThenVerdict env st conn pkt =
                  (st\<lparr>packetsAccepted := packetsAccepted st + 1\<rparr>,
                   enablePermanentVerdict env
                     (if Inspecting conn1
                      then conn1\<lparr>Verdict := VerdictAccept (vc env), ReasonMsg := reason\<rparr>
                      else SaveWhenFinished (StopFirewallHandler
                             (conn1\<lparr>Verdict := VerdictAccept (vc env), ReasonMsg := reason\<rparr>)))
                     (\<not> Inspecting conn1),
                   callSink
                     (if VerdictPermanent
                           (enablePermanentVerdict env
                              (if Inspecting conn1
                               then conn1\<lparr>Verdict := VerdictAccept (vc env), ReasonMsg := reason\<rparr>
                               else SaveWhenFinished (StopFirewallHandler
                                      (conn1\<lparr>Verdict := VerdictAccept (vc env),
                                             ReasonMsg := reason\<rparr>)))
                              (\<not> Inspecting conn1))
                      then PermanentAccept else Accept) pkt))
       \<and> (VerdictAccept (vc env) < Verdict conn1
            \<longrightarrow> inspectThenVerdict env st conn pkt =
                  (fst (applyVerdict env st
                          (enablePermanentVerdict env
                             (if Inspecting conn1 then conn1
                              else SaveWhenFinished (StopFirewallHandler conn1))
                             (\<not> Inspecting conn1))
                          pkt (Verdict conn1)),
                   enablePermanentVerdict env
                     (if Inspecting conn1 then conn1
                      else SaveWhenFinished (StopFirewallHandler conn1))
                     (\<not> Inspecting conn1),
                   snd (applyVerdict env st
                          (enablePermanentVerdict env
                             (if Inspecting conn1 then conn1
                              else SaveWhenFinished (StopFirewallHandler conn1))
                             (\<not> Inspecting conn1))
                          pkt (Verdict conn1)))
              \<and> Verdict (fst (snd (inspectThenVerdict env st conn pkt))) = Verdict conn1
              \<and> snd (snd (inspectThenVerdict env st conn pkt)) \<noteq> callSink Accept pkt
              \<and> snd (snd (inspectThenVerdict env st conn pkt)) \<noteq> callSink PermanentAccept pkt)"
  using inspectThenVerdict_error_accept [OF assms, of st]
    inspectThenVerdict_error_at_most_accept [OF assms, of st]
    inspectThenVerdict_error_above_accept_exact [OF assms, of st]
    inspectThenVerdict_error_above_accept [OF assms, of st]
  by blast

text \<open>
  The theorem at an accepted, inspecting record (the packet is accepted one-shot and the
  record is unchanged), at an undecided one (the packet is accepted and the record
  ends at accept) and at a dropped one (the packet is dropped).
\<close>

theorem inspectThenVerdict_on_error_witness:
  "verdict_consts_ok (vc env0)
   \<and> streamManagerHandlePacket env0
        (conn0\<lparr>Verdict := VerdictAccept vc0, Inspecting := True,
               firewallHandler := Some InspectThenVerdictHandler\<rparr>) pkt0
       = (conn0\<lparr>Verdict := VerdictAccept vc0, Inspecting := True,
                firewallHandler := Some InspectThenVerdictHandler\<rparr>, 0, [], True)
   \<and> inspectThenVerdict env0 st0
        (conn0\<lparr>Verdict := VerdictAccept vc0, Inspecting := True,
               firewallHandler := Some InspectThenVerdictHandler\<rparr>) pkt0
       = (st0\<lparr>packetsAccepted := 1\<rparr>,
          conn0\<lparr>Verdict := VerdictAccept vc0, Inspecting := True,
                firewallHandler := Some InspectThenVerdictHandler\<rparr>,
          callSink Accept pkt0)
   \<and> Verdict (conn0\<lparr>Inspecting := True\<rparr>) \<le> VerdictAccept (vc env0)
   \<and> inspectThenVerdict env0 st0 (conn0\<lparr>Inspecting := True\<rparr>) pkt0
       = (st0\<lparr>packetsAccepted := 1\<rparr>,
          conn0\<lparr>Verdict := VerdictAccept vc0, Inspecting := True\<rparr>,
          callSink Accept pkt0)
   \<and> VerdictAccept (vc env0) < Verdict (conn0\<lparr>Verdict := VerdictDrop vc0, Inspecting := True\<rparr>)
   \<and> inspectThenVerdict env0 st0 (conn0\<lparr>Verdict := VerdictDrop vc0, Inspecting := True\<rparr>) pkt0
       = (st0\<lparr>packetsDropped := 1\<rparr>,
          conn0\<lparr>Verdict := VerdictDrop vc0, Inspecting := True\<rparr>,
          callSink Drop pkt0)"
  using inspectThenVerdict_on_error [of env0
      "conn0\<lparr>Verdict := VerdictAccept vc0, Inspecting := True,
             firewallHandler := Some InspectThenVerdictHandler\<rparr>" pkt0
      "conn0\<lparr>Verdict := VerdictAccept vc0, Inspecting := True,
             firewallHandler := Some InspectThenVerdictHandler\<rparr>" 0 "[]" st0]
    inspectThenVerdict_on_error [of env0 "conn0\<lparr>Inspecting := True\<rparr>" pkt0
      "conn0\<lparr>Inspecting := True\<rparr>" 0 "[]" st0]
    inspectThenVerdict_on_error [of env0
      "conn0\<lparr>Verdict := VerdictDrop vc0, Inspecting := True\<rparr>" pkt0
      "conn0\<lparr>Verdict := VerdictDrop vc0, Inspecting := True\<rparr>" 0 "[]" st0]
  by (simp add: inspectThenVerdict_def SetVerdict_def issueVerdict_def clampVerdict_def
        enablePermanentVerdict_def applyVerdict_def callSink_def
        env0_def vc0_def conn0_def st0_def pkt0_def verdict_consts_ok_def Let_def)

text \<open>
  The claim as stated fails in three ways.  On an inspecting record at block the
  handler calls the block sink, not the accept sink.  On an inspecting record that is
  still undecided the record's verdict does not stay as it was: it becomes accept.
  And when the stream manager clears the inspecting flag before it fails, the packet
  of an accepted record goes to the permanent accept sink.
\<close>

theorem inspectThenVerdict_error_blocked_counterexample:
  "snd (snd (snd (streamManagerHandlePacket env0
        (conn0\<lparr>Verdict := VerdictBlock vc0, Inspecting := True,
               firewallHandler := Some InspectThenVerdictHandler\<rparr>) pkt0)))
   \<and> inspectThenVerdict env0 st0
        (conn0\<lparr>Verdict := VerdictBlock vc0, Inspecting := True,
               firewallHandler := Some InspectThenVerdictHandler\<rparr>) pkt0
       = (st0\<lparr>packetsBlocked := 1\<rparr>,
          conn0\<lparr>Verdict := VerdictBlock vc0, Inspecting := True,
                firewallHandler := Some InspectThenVerdictHandler\<rparr>,
          callSink Block pkt0)
   \<and> sinks (callSink Block pkt0) = [Block]
   \<and> sinks (snd (snd (inspectThenVerdict env0 st0
        (conn0\<lparr>Verdict := VerdictBlock vc0, Inspecting := True,
               firewallHandler := Some InspectThenVerdictHandler\<rparr>) pkt0)))
       \<noteq> sinks pkt0 @ [Accept]
   \<and> Verdict (conn0\<lparr>Inspecting := True, firewallHandler := Some InspectThenVerdictHandler\<rparr>)
       = VerdictUndecided vc0
   \<and> Verdict (fst (snd (inspectThenVerdict env0 st0
        (conn0\<lparr>Inspecting := True, firewallHandler := Some InspectThenVerdictHandler\<rparr>) pkt0)))
       = VerdictAccept vc0
   \<and> VerdictUndecided vc0 \<noteq> VerdictAccept vc0
   \<and> inspectThenVerdict
        (env0\<lparr>streamManagerHandlePacket := (\<lambda>c p. (c\<lparr>Inspecting := False\<rparr>, 0, [], True))\<rparr>) st0
        (conn0\<lparr>Verdict := VerdictAccept vc0, Inspecting := True,
               firewallHandler := Some InspectThenVerdictHandler\<rparr>) pkt0
       = (st0\<lparr>packetsAccepted := 1\<rparr>,
          conn0\<lparr>Verdict := VerdictAccept vc0, Inspecting := False, firewallHandler := None,
                saveWhenFinished := True, VerdictPermanent := True\<rparr>,
          callSink PermanentAccept pkt0)"
  by (simp add: inspectThenVerdict_def SetVerdict_def issueVerdict_def clampVerdict_def
        enablePermanentVerdict_def applyVerdict_def callSink_def StopFirewallHandler_def
        SaveWhenFinished_def env0_def vc0_def conn0_def st0_def pkt0_def Let_def)

section \<open>The initial handler\<close>

text \<open>
  Claim C4.  For an outbound packet to port 53 on a connection whose local port is not
  pre-authenticated and whose process is not this one, with the nameserver IP matcher
  registered and not matching the destination: the initial handler sets the record's
  verdict to reroute-to-nameserver, marks it internal, clears its handler, and calls the
  packet's reroute-to-nameserver sink (no counter is touched).
\<close>

theorem initialHandler_rogue_dns:
  assumes "verdict_consts_ok (vc env)"
    and "IsOutbound pkt" and "DstPort pkt = 53"
    and "\<not> localPortIsPreAuthenticated env (EntityProtocol conn) (LocalPort conn)"
    and "ProcessPid conn \<noteq> ownPID env"
    and "nameserverIPMatcherReady st" and "nameserverIPMatcher st = Some matcher"
    and "\<not> matcher (Dst pkt)"
  shows "\<exists>conn'. initialHandler env st conn pkt = Inr (st, conn', callSink RerouteToNameserver pkt)
           \<and> Verdict conn' = VerdictRerouteToNameserver (vc env)
           \<and> Internal conn'
           \<and> firewallHandler conn' = None"
proof -
  let ?c = "StopFirewallHandler
              (conn\<lparr>Verdict := VerdictRerouteToNameserver (vc env),
                    ReasonMsg := ''redirecting rogue dns query'', Internal := True\<rparr>)"
  let ?c' = "enablePermanentVerdict env ?c True"
  have h: "initialHandler env st conn pkt = Inr (issueVerdict env st ?c pkt 0 True)"
    using assms(2-8) by (simp add: initialHandler_def Let_def)
  have v: "Verdict ?c = VerdictRerouteToNameserver (vc env)"
    by (simp add: StopFirewallHandler_def)
  have m: "max 0 (Verdict ?c) = VerdictRerouteToNameserver (vc env)"
    unfolding v using assms(1) by (simp add: verdict_consts_ok_def)
  have r: "initialHandler env st conn pkt = Inr (st, ?c', callSink RerouteToNameserver pkt)"
    unfolding h issueVerdict_unfold m applyVerdict_RerouteToNameserver [OF assms(1)] by simp
  have "Verdict ?c' = VerdictRerouteToNameserver (vc env)"
    by (simp add: enablePermanentVerdict_Verdict v)
  moreover have "Internal ?c'"
    by (simp add: enablePermanentVerdict_def SaveWhenFinished_def StopFirewallHandler_def Let_def)
  moreover have "firewallHandler ?c' = None"
    by (simp add: enablePermanentVerdict_def SaveWhenFinished_def StopFirewallHandler_def Let_def)
  ultimately show ?thesis using r by blast
qed

text \<open>The theorem at the spec's rogue-DNS scenario: UDP to 8.8.8.8:53 from a foreign process.\<close>

theorem initialHandler_rogue_dns_witness:
  "verdict_consts_ok (vc env0)
   \<and> IsOutbound pkt0 \<and> DstPort pkt0 = 53
   \<and> \<not> localPortIsPreAuthenticated env0 (EntityProtocol conn0) (LocalPort conn0)
   \<and> ProcessPid conn0 \<noteq> ownPID env0
   \<and> \<not> IP_Equal (Dst pkt0) [127, 0, 0, 17]
   \<and> initialHandler env0
        (st0\<lparr>nameserverIPMatcherSet := True,
            nameserverIPMatcher := Some (\<lambda>ip. IP_Equal ip [127, 0, 0, 17]),
            nameserverIPMatcherReady := True\<rparr>) conn0 pkt0
       = Inr (st0\<lparr>nameserverIPMatcherSet := True,
                  nameserverIPMatcher := Some (\<lambda>ip. IP_Equal ip [127, 0, 0, 17]),
                  nameserverIPMatcherReady := True\<rparr>,
              conn0\<lparr>Verdict := VerdictRerouteToNameserver vc0,
                    ReasonMsg := ''redirecting rogue dns query'', Internal := True,
                    firewallHandler := None, VerdictPermanent := True,
                    saveWhenFinished := True\<rparr>,
              callSink RerouteToNameserver pkt0)"
  using initialHandler_rogue_dns [of env0 pkt0 conn0
      "st0\<lparr>nameserverIPMatcherSet := True,
            nameserverIPMatcher := Some (\<lambda>ip. IP_Equal ip [127, 0, 0, 17]),
            nameserverIPMatcherReady := True\<rparr>" "\<lambda>ip. IP_Equal ip [127, 0, 0, 17]"]
  by (simp add: initialHandler_def Let_def issueVerdict_def clampVerdict_def
        enablePermanentVerdict_def StopFirewallHandler_def SaveWhenFinished_def
        applyVerdict_def verdict_consts_ok_def env0_def vc0_def st0_def conn0_def pkt0_def
        IP_Equal_def)

section \<open>The fast-track classifier\<close>

text \<open>
  Claim C5.  For an ICMP or ICMPv6 packet that is not fast-tracked by the integration,
  not addressed to a sentinel IP and not a self-check: (i) if loading the packet data
  fails, the permanent-accept sink is called and the packet is handled; (ii) if the
  control layer is an echo request or an echo reply, no sink is called and the packet
  is not handled; (iii) otherwise the packet is submitted to the ICMP listener and is
  handled with the one-shot accept sink if the listener took it, with the
  permanent-accept sink if not.
\<close>

theorem fastTrackedPermit_icmp:
  assumes "\<not> FastTrackedByIntegration pkt"
    and "\<not> IP_Equal (Dst pkt) blockedIPv4" and "\<not> IP_Equal (Dst pkt) blockedIPv6"
    and "\<not> (SrcPort pkt = DstPort pkt \<and> IP_Equal (Src pkt) (Dst pkt))"
    and "Protocol pkt = ICMP \<or> Protocol pkt = ICMPv6"
  shows "(LoadPacketDataFails pkt
            \<longrightarrow> fastTrackedPermit env st pkt = Inr (True, callSink PermanentAccept pkt))
       \<and> (\<not> LoadPacketDataFails pkt
            \<and> IPControlLayer pkt \<in>
                {LayerICMPv4 ICMPv4TypeEchoRequest, LayerICMPv4 ICMPv4TypeEchoReply,
                 LayerICMPv6 ICMPv6TypeEchoRequest, LayerICMPv6 ICMPv6TypeEchoReply}
            \<longrightarrow> fastTrackedPermit env st pkt = Inr (False, pkt))
       \<and> (\<not> LoadPacketDataFails pkt
            \<and> IPControlLayer pkt \<notin>
                {LayerICMPv4 ICMPv4TypeEchoRequest, LayerICMPv4 ICMPv4TypeEchoReply,
                 LayerICMPv6 ICMPv6TypeEchoRequest, LayerICMPv6 ICMPv6TypeEchoReply}
            \<longrightarrow> fastTrackedPermit env st pkt =
                  Inr (True, if SubmitPacketToICMPListener env pkt then callSink Accept pkt
                             else callSink PermanentAccept pkt))"
  using assms
  by (auto simp: fastTrackedPermit_def isEchoLayer_def split: ControlLayer.splits)

text \<open>
  The theorem at four ICMP packets: unloadable data, an echo request, a destination
  unreachable message the listener declines, and a neighbour solicitation it takes.
\<close>

theorem fastTrackedPermit_icmp_witness:
  "\<not> FastTrackedByIntegration (pkt0\<lparr>Protocol := ICMP\<rparr>)
   \<and> \<not> IP_Equal (Dst (pkt0\<lparr>Protocol := ICMP\<rparr>)) blockedIPv4
   \<and> \<not> IP_Equal (Dst (pkt0\<lparr>Protocol := ICMP\<rparr>)) blockedIPv6
   \<and> \<not> IP_Equal (Src (pkt0\<lparr>Protocol := ICMP\<rparr>)) (Dst (pkt0\<lparr>Protocol := ICMP\<rparr>))
   \<and> fastTrackedPermit env0 st0 (pkt0\<lparr>Protocol := ICMP, LoadPacketDataFails := True\<rparr>)
       = Inr (True, callSink PermanentAccept (pkt0\<lparr>Protocol := ICMP, LoadPacketDataFails := True\<rparr>))
   \<and> fastTrackedPermit env0 st0
         (pkt0\<lparr>Protocol := ICMP, IPControlLayer := LayerICMPv4 ICMPv4TypeEchoRequest\<rparr>)
       = Inr (False, pkt0\<lparr>Protocol := ICMP, IPControlLayer := LayerICMPv4 ICMPv4TypeEchoRequest\<rparr>)
   \<and> fastTrackedPermit env0 st0 (pkt0\<lparr>Protocol := ICMP, IPControlLayer := LayerICMPv4 3\<rparr>)
       = Inr (True, callSink PermanentAccept (pkt0\<lparr>Protocol := ICMP, IPControlLayer := LayerICMPv4 3\<rparr>))
   \<and> fastTrackedPermit (env0\<lparr>SubmitPacketToICMPListener := (\<lambda>pkt. True)\<rparr>) st0
         (pkt0\<lparr>Protocol := ICMPv6, IPControlLayer := LayerICMPv6 135\<rparr>)
       = Inr (True, callSink Accept (pkt0\<lparr>Protocol := ICMPv6, IPControlLayer := LayerICMPv6 135\<rparr>))"
  using fastTrackedPermit_icmp [of "pkt0\<lparr>Protocol := ICMP, LoadPacketDataFails := True\<rparr>" env0 st0]
    fastTrackedPermit_icmp
      [of "pkt0\<lparr>Protocol := ICMP, IPControlLayer := LayerICMPv4 ICMPv4TypeEchoRequest\<rparr>" env0 st0]
    fastTrackedPermit_icmp [of "pkt0\<lparr>Protocol := ICMP, IPControlLayer := LayerICMPv4 3\<rparr>" env0 st0]
    fastTrackedPermit_icmp [of "pkt0\<lparr>Protocol := ICMPv6, IPControlLayer := LayerICMPv6 135\<rparr>"
      "env0\<lparr>SubmitPacketToICMPListener := (\<lambda>pkt. True)\<rparr>" st0]
  by (simp add: pkt0_def env0_def IP_Equal_def blockedIPv4_def blockedIPv6_def v4InV6Prefix_def
        ICMPv4TypeEchoRequest_def ICMPv4TypeEchoReply_def ICMPv6TypeEchoRequest_def
        ICMPv6TypeEchoReply_def)

section \<open>The nameserver IP matcher\<close>

lemma SetNameserverIPMatcher_calls_after_set:
  "nameserverIPMatcherSet st \<Longrightarrow>
   SetNameserverIPMatcher_calls fns st =
     (replicate (length fns) (Inl ''nameserver IP matcher already set''), st)"
  by (induction fns) (simp_all add: SetNameserverIPMatcher_def)

text \<open>
  Claim C8.  Starting with the matcher not set, the first call of
  \<open>SetNameserverIPMatcher\<close> returns no error and installs its argument; every later
  call returns an error and leaves the state, and so the installed matcher, as it was.
\<close>

theorem SetNameserverIPMatcher_set_once:
  assumes "\<not> nameserverIPMatcherSet st"
  shows "SetNameserverIPMatcher_calls (fn # fns) st =
           (Inr () # replicate (length fns) (Inl ''nameserver IP matcher already set''),
            st\<lparr>nameserverIPMatcherSet := True, nameserverIPMatcher := fn,
               nameserverIPMatcherReady := True\<rparr>)
         \<and> SetNameserverIPMatcher fn st =
             (Inr (), st\<lparr>nameserverIPMatcherSet := True, nameserverIPMatcher := fn,
                         nameserverIPMatcherReady := True\<rparr>)
         \<and> SetNameserverIPMatcher fn'
              (st\<lparr>nameserverIPMatcherSet := True, nameserverIPMatcher := fn,
                  nameserverIPMatcherReady := True\<rparr>) =
             (Inl ''nameserver IP matcher already set'',
              st\<lparr>nameserverIPMatcherSet := True, nameserverIPMatcher := fn,
                  nameserverIPMatcherReady := True\<rparr>)"
proof -
  let ?st1 = "st\<lparr>nameserverIPMatcherSet := True, nameserverIPMatcher := fn,
                  nameserverIPMatcherReady := True\<rparr>"
  have first: "SetNameserverIPMatcher fn st = (Inr (), ?st1)"
    using assms by (simp add: SetNameserverIPMatcher_def)
  have "nameserverIPMatcherSet ?st1" by simp
  then have rest: "SetNameserverIPMatcher_calls fns ?st1 =
      (replicate (length fns) (Inl ''nameserver IP matcher already set''), ?st1)"
    by (rule SetNameserverIPMatcher_calls_after_set)
  have later: "SetNameserverIPMatcher fn' ?st1 = (Inl ''nameserver IP matcher already set'', ?st1)"
    by (simp add: SetNameserverIPMatcher_def)
  show ?thesis using first rest later by simp
qed

text \<open>The theorem at three calls on the initial state: the first matcher stays.\<close>

theorem SetNameserverIPMatcher_set_once_witness:
  "\<not> nameserverIPMatcherSet st0
   \<and> SetNameserverIPMatcher_calls
        [Some (\<lambda>ip. IP_Equal ip [127, 0, 0, 17]), Some (\<lambda>ip. True), None] st0 =
       ([Inr (), Inl ''nameserver IP matcher already set'',
         Inl ''nameserver IP matcher already set''],
        st0\<lparr>nameserverIPMatcherSet := True,
            nameserverIPMatcher := Some (\<lambda>ip. IP_Equal ip [127, 0, 0, 17]),
            nameserverIPMatcherReady := True\<rparr>)"
  using SetNameserverIPMatcher_set_once [of st0 "Some (\<lambda>ip. IP_Equal ip [127, 0, 0, 17])"
      "[Some (\<lambda>ip. True), None]"]
  by (simp add: st0_def)

section \<open>The packet handler\<close>

lemma fastTrackedPermit_unhandled:
  "fastTrackedPermit env st pkt = Inr (False, pkt1) \<Longrightarrow> pkt1 = pkt"
  by (simp add: fastTrackedPermit_def split: if_splits option.splits prod.splits)

lemma getConnection_fails:
  "getConnection env st inflight pkt = (Inl err, st1) \<Longrightarrow> st1 = st"
  by (auto simp: getConnection_def Let_def split: Inflight.splits option.splits if_splits)

text \<open>
  Claim C10.  For a packet the fast-track classifier does not handle and for which
  \<open>getConnection\<close> returns an error (the getter delivered an error or a nil record),
  \<open>handlePacket\<close> calls the packet's drop sink and returns: the state is unchanged, so
  no counter is incremented and no firewall handler has been invoked.
\<close>

theorem handlePacket_getConnection_fails:
  assumes "fastTrackedPermit env st pkt = Inr (False, pkt1)"
    and "getConnection env st inflight pkt1 = (Inl err, st1)"
  shows "handlePacket env st inflight pkt = Inr (st, callSink Drop pkt)"
proof -
  have "pkt1 = pkt" using assms(1) by (rule fastTrackedPermit_unhandled)
  moreover have "st1 = st" using assms(2) by (rule getConnection_fails)
  ultimately show ?thesis using assms by (simp add: handlePacket_def)
qed

text \<open>The theorem at a joined call that delivers nil, and at one that delivers an error.\<close>

theorem handlePacket_getConnection_fails_witness:
  "fastTrackedPermit env0 st0 pkt0 = Inr (False, pkt0)
   \<and> getConnection env0 st0 (JoinsCall None False) pkt0
       = (Inl ''connection getter returned nil'', st0)
   \<and> handlePacket env0 st0 (JoinsCall None False) pkt0 = Inr (st0, callSink Drop pkt0)
   \<and> getConnection env0 st0 (JoinsCall (Some conn0) True) pkt0
       = (Inl ''failed to get connection'', st0)
   \<and> handlePacket env0 st0 (JoinsCall (Some conn0) True) pkt0 = Inr (st0, callSink Drop pkt0)
   \<and> sinks (callSink Drop pkt0) = [Drop]"
  using handlePacket_getConnection_fails [of env0 st0 pkt0 pkt0 "JoinsCall None False"
      "''connection getter returned nil''" st0]
    handlePacket_getConnection_fails [of env0 st0 pkt0 pkt0 "JoinsCall (Some conn0) True"
      "''failed to get connection''" st0]
  by (simp add: fastTrackedPermit_def getConnection_def callSink_def
        IP_Equal_def blockedIPv4_def blockedIPv6_def v4InV6Prefix_def
        env0_def st0_def pkt0_def)

section \<open>End-to-end scenarios\<close>

text \<open>
  Rogue DNS, through \<open>handlePacket\<close>: an outbound UDP packet to 8.8.8.8:53 from a
  foreign process, with the matcher registered for 127.0.0.17 only, is not
  fast-tracked; a record is created and entered in the table, one handler (the initial
  handler) runs, the record ends at reroute-to-nameserver, internal, with no handler,
  and the packet's reroute-to-nameserver sink is called.
\<close>

theorem handlePacket_rogue_dns_scenario:
  "handlePacket env0
     (st0\<lparr>nameserverIPMatcherSet := True,
         nameserverIPMatcher := Some (\<lambda>ip. IP_Equal ip [127, 0, 0, 17]),
         nameserverIPMatcherReady := True\<rparr>)
     (RunsCall False) pkt0
   = Inr (st0\<lparr>nameserverIPMatcherSet := True,
              nameserverIPMatcher := Some (\<lambda>ip. IP_Equal ip [127, 0, 0, 17]),
              nameserverIPMatcherReady := True,
              conns := [ConnectionID pkt0 \<mapsto>
                         conn0\<lparr>Verdict := VerdictRerouteToNameserver vc0,
                               ReasonMsg := ''redirecting rogue dns query'', Internal := True,
                               firewallHandler := None, VerdictPermanent := True,
                               saveWhenFinished := True\<rparr>],
              handlerCalls := 1\<rparr>,
          callSink RerouteToNameserver pkt0)"
  by (simp add: handlePacket_def fastTrackedPermit_def getConnection_def GetConnection_def
        storeConnection_def conn_HandlePacket_def initialHandler_def SetFirewallHandler_def
        StopFirewallHandler_def SaveWhenFinished_def issueVerdict_def clampVerdict_def
        enablePermanentVerdict_def applyVerdict_def IP_Equal_def blockedIPv4_def
        blockedIPv6_def v4InV6Prefix_def env0_def vc0_def st0_def conn0_def pkt0_def Let_def)

text \<open>
  Loopback self-check: TCP 10.0.0.5:53124 to 10.0.0.5:53124 is fast-tracked with the
  permanent-accept sink.
\<close>

theorem fastTrackedPermit_self_check_scenario:
  "fastTrackedPermit env0 st0
     (pkt0\<lparr>Src := [10, 0, 0, 5], Dst := [10, 0, 0, 5], SrcPort := 53124, DstPort := 53124,
           Protocol := TCP\<rparr>)
   = Inr (True, callSink PermanentAccept
           (pkt0\<lparr>Src := [10, 0, 0, 5], Dst := [10, 0, 0, 5], SrcPort := 53124, DstPort := 53124,
                 Protocol := TCP\<rparr>))"
  by (simp add: fastTrackedPermit_def IP_Equal_def blockedIPv4_def blockedIPv6_def
        v4InV6Prefix_def pkt0_def)

text \<open>
  Sentinel block: TCP 192.168.1.10:44000 to 0.0.0.17:80 is fast-tracked with the
  permanent-block sink.
\<close>

theorem fastTrackedPermit_sentinel_scenario:
  "fastTrackedPermit env0 st0
     (pkt0\<lparr>Src := [192, 168, 1, 10], Dst := [0, 0, 0, 17], SrcPort := 44000, DstPort := 80,
           Protocol := TCP\<rparr>)
   = Inr (True, callSink PermanentBlock
           (pkt0\<lparr>Src := [192, 168, 1, 10], Dst := [0, 0, 0, 17], SrcPort := 44000, DstPort := 80,
                 Protocol := TCP\<rparr>))"
  by (simp add: fastTrackedPermit_def IP_Equal_def blockedIPv4_def blockedIPv6_def
        v4InV6Prefix_def pkt0_def)

end
